theory Spec2Isabelle
  imports Main "HOL-Library.Word"
begin

section \<open>Python string primitives used by \<open>cli.py\<close>\<close>

text \<open>
  A Python \<open>str\<close> is modelled as a \<open>string\<close> whose characters are the code points
  below 256. On that range \<open>str.isspace\<close> holds for the code points 9-13, 28-32, 133
  and 160, and the only decimal digits are \<open>0\<close>-\<open>9\<close>. The whitespace that \<open>int()\<close>
  strips from a \<open>str\<close> is narrower: the code points 9-13, 32, 133 and 160, but not
  28-31.
\<close>

definition startswith :: "string \<Rightarrow> string \<Rightarrow> bool" where
  "startswith s p = (take (length p) s = p)"

definition isspace_char :: "char \<Rightarrow> bool" where
  "isspace_char c =
     (let n = (of_char c :: nat)
      in (9 \<le> n \<and> n \<le> 13) \<or> (28 \<le> n \<and> n \<le> 32) \<or> n = 133 \<or> n = 160)"

definition isspace :: "string \<Rightarrow> bool" where
  \<comment> \<open>\<open>str.isspace()\<close>: at least one character, and all of them whitespace.\<close>
  "isspace s = (s \<noteq> [] \<and> list_all isspace_char s)"

fun split_on :: "char \<Rightarrow> string \<Rightarrow> string list" where
  \<comment> \<open>\<open>s.split(sep)\<close> for a one-character separator.\<close>
  "split_on sep [] = [[]]"
| "split_on sep (c # cs) =
     (if c = sep then [] # split_on sep cs
      else (case split_on sep cs of
              [] \<Rightarrow> [[c]]
            | p # ps \<Rightarrow> (c # p) # ps))"

definition strip :: "string \<Rightarrow> string" where
  \<comment> \<open>\<open>s.strip()\<close>\<close>
  "strip s = rev (dropWhile isspace_char (rev (dropWhile isspace_char s)))"

definition int_space_char :: "char \<Rightarrow> bool" where
  \<comment> \<open>The characters that \<open>int()\<close> skips at both ends of its argument.\<close>
  "int_space_char c =
     (let n = (of_char c :: nat)
      in (9 \<le> n \<and> n \<le> 13) \<or> n = 32 \<or> n = 133 \<or> n = 160)"

definition int_strip :: "string \<Rightarrow> string" where
  "int_strip s = rev (dropWhile int_space_char (rev (dropWhile int_space_char s)))"

definition is_digit :: "char \<Rightarrow> bool" where
  "is_digit c = (48 \<le> (of_char c :: nat) \<and> (of_char c :: nat) \<le> 57)"

definition digit_val :: "char \<Rightarrow> nat" where
  "digit_val c = of_char c - 48"

fun py_digits_from :: "nat \<Rightarrow> string \<Rightarrow> nat option" where
  \<comment> \<open>The rest of a decimal literal after a digit: digits, each optionally preceded by
      one underscore.\<close>
  "py_digits_from acc [] = Some acc"
| "py_digits_from acc (c # cs) =
     (if is_digit c then py_digits_from (10 * acc + digit_val c) cs
      else if c = CHR ''_'' \<and> cs \<noteq> [] \<and> is_digit (hd cs) then py_digits_from acc cs
      else None)"

definition py_digits :: "string \<Rightarrow> nat option" where
  "py_digits s =
     (case s of
        [] \<Rightarrow> None
      | c # cs \<Rightarrow> if is_digit c then py_digits_from (digit_val c) cs else None)"

definition py_int :: "nat \<Rightarrow> string \<Rightarrow> int option" where
  \<comment> \<open>\<open>int(v)\<close> on a \<open>str\<close>, base 10: the whitespace at both ends is skipped, one sign
      is allowed, then digits with single underscores between them. \<open>None\<close> is
      \<open>ValueError\<close>, which is also raised when the literal has more digits than
      \<open>max_str_digits\<close>, the value of \<open>sys.get_int_max_str_digits()\<close>: 4300 unless
      configured, 0 for no limit (and on interpreters that have none).\<close>
  "py_int max_str_digits v =
     (case int_strip v of
        [] \<Rightarrow> None
      | c # cs \<Rightarrow>
          if max_str_digits \<noteq> 0 \<and> max_str_digits < length (filter is_digit (c # cs)) then None
          else if c = CHR ''-'' then map_option (\<lambda>n. - int n) (py_digits cs)
          else if c = CHR ''+'' then map_option int (py_digits cs)
          else map_option int (py_digits (c # cs)))"

definition replace_nl :: "string \<Rightarrow> string" where
  \<comment> \<open>\<open>s.replace('\n', '\\n')\<close>: every newline becomes a backslash and an \<open>n\<close>.\<close>
  "replace_nl s = concat (map (\<lambda>c. if c = CHR 0x0A then [CHR 0x5C, CHR ''n''] else [c]) s)"

definition remove_nl :: "string \<Rightarrow> string" where
  \<comment> \<open>\<open>s.replace('\n', '')\<close>\<close>
  "remove_nl s = filter (\<lambda>c. c \<noteq> CHR 0x0A) s"

definition unlines :: "string list \<Rightarrow> string" where
  \<comment> \<open>The lines of a triple-quoted literal, each ended by a newline.\<close>
  "unlines ls = concat (map (\<lambda>l. l @ [CHR 0x0A]) ls)"


section \<open>Options, exceptions and outcomes\<close>

text \<open>
  \<open>opts\<close> is the class imported from \<open>jello.lib\<close> whose attributes \<open>main\<close> reads and
  assigns. It is module-level state: it outlives a call of \<open>main\<close>, so \<open>main\<close> takes
  the values on entry and returns the values on exit. The attribute \<open>mono\<close> is named
  \<open>mono_opt\<close> here.
\<close>

record opts =
  compact :: bool
  initialize :: bool
  lines :: bool
  mono_opt :: bool
  nulls :: bool
  raw :: bool
  schema :: bool
  version_info :: bool
  helpme :: bool

text \<open>
  What \<open>cli.py\<close> reads from an exception \<open>e\<close>: \<open>e.__class__.__name__\<close>, \<open>str(e)\<close>
  and the attribute \<open>e.text\<close>, which may be missing, may be a \<open>str\<close>, or may be an
  object without \<open>replace\<close> (a \<open>SyntaxError\<close> can carry \<open>None\<close>).
\<close>

datatype etext = NoAttr | NotStr | Text string

record exn =
  class_name :: string
  str_e :: string
  e_text :: etext

text \<open>
  How a call of \<open>main\<close> ends: it returns, or \<open>sys.exit\<close> raises \<open>SystemExit\<close> with an
  exit status (\<open>sys.exit()\<close> is status 0), or an exception escapes \<open>main\<close> (the
  interpreter then prints a traceback to stderr, which is not recorded here, and
  exits with status 1).
\<close>

datatype status = Returned | Exit nat | Uncaught

datatype stage = Load | Query | Format | Output

text \<open>
  \<open>stdout\<close> and \<open>stderr\<close> list the arguments of the \<open>print\<close> calls, in order (\<open>print\<close>
  itself adds a newline to each and is taken to succeed). \<open>calls\<close> is a ghost
  field: the pipeline stages that were entered, in order. \<open>opts_after\<close> is \<open>opts\<close> when
  the call ends.
\<close>

record outcome =
  stdout :: "string list"
  stderr :: "string list"
  status :: status
  calls :: "stage list"
  opts_after :: opts


section \<open>The environment and the imported library\<close>

text \<open>
  \<open>argv\<close> is \<open>sys.argv[1:]\<close>. \<open>int_max_str_digits\<close> is what
  \<open>sys.get_int_max_str_digits()\<close> returns: the interpreter's limit on the digits of a
  string that \<open>int()\<close> converts, 0 when there is none. The five \<open>jello_*\<close> strings are
  the metadata constants of the \<open>jello\<close> package, which are not part of the sources;
  they are taken to be single-line.
\<close>

record env =
  argv :: "string list"
  int_max_str_digits :: nat
  stdin_isatty :: bool
  stdin_read :: string
  stdout_isatty :: bool
  PYGMENTS_INSTALLED :: bool
  jello_version :: string
  jello_author :: string
  jello_website :: string
  jello_copyright :: string
  jello_license :: string

text \<open>
  The functions that \<open>cli.py\<close> imports from \<open>jello.lib\<close> and from pygments are
  parameters of the model: \<open>Inl e\<close> is the exception \<open>e\<close> raised by the call. The type
  \<open>'v\<close> is the type of loaded documents and query responses, \<open>py_str\<close> is \<open>str()\<close> on
  them. They read \<open>opts\<close>; \<open>pyquery\<close>, which also reads the initialization file, may
  assign \<open>opts\<close> as well and returns it.
  \<^item> \<open>schema_set_colors\<close> is \<open>Schema()\<close> followed by \<open>schema.set_colors()\<close>;
  \<^item> \<open>schema_text\<close> is \<open>schema.create_schema(response)\<close> followed by
    \<open>schema.schema_text()\<close>;
  \<^item> \<open>highlight\<close> is the colouring of lines 218-231: \<open>JelloTheme()\<close>,
    \<open>theme.set_colors()\<close>, the style class, the lexer, the formatter and pygments'
    \<open>highlight(output, lexer, formatter)\<close>.
\<close>

record 'v lib =
  load_json :: "string \<Rightarrow> exn + 'v"
  pyquery :: "opts \<Rightarrow> 'v \<Rightarrow> string \<Rightarrow> (exn + 'v) \<times> opts"
  create_json :: "opts \<Rightarrow> 'v \<Rightarrow> exn + string"
  schema_set_colors :: "opts \<Rightarrow> exn option"
  schema_text :: "opts \<Rightarrow> 'v \<Rightarrow> exn + string"
  highlight :: "opts \<Rightarrow> string \<Rightarrow> exn + string"
  py_str :: "'v \<Rightarrow> string"


section \<open>\<open>cli.py\<close>\<close>

definition get_stdin :: "env \<Rightarrow> string option" where
  "get_stdin env = (if stdin_isatty env then None else Some (stdin_read env))"

definition helptext_lines :: "string list" where
  \<open>helptext_lines =
     [''jello:  query JSON at the command line with python syntax'',
      '''',
      ''Usage:  cat data.json | jello [OPTIONS] [QUERY]'',
      '''',
      ''        -c   compact JSON output'',
      ''        -i   initialize environment with .jelloconf.py in ~ (linux) or %appdata% (Windows)'',
      ''        -l   output as lines suitable for assignment to a bash array'',
      ''        -m   monochrome output'',
      ''        -n   print selected null values'',
      ''        -r   raw string output (no quotes)'',
      ''        -s   print the JSON schema in grep-able format'',
      ''        -v   version info'',
      ''        -h   help'',
      '''',
      ''Use '_' as the input data and use python dict and list bracket syntax or dot notation.'',
      '''',
      ''Examples:'',
      ''        cat data.json | jello _.foo'',
      ''        cat data.json | jello '_["foo"]'' @ [CHR 0x27],
      ''        variable=($(cat data.json | jello -l _.foo))'']\<close>

definition helptext :: string where
  \<comment> \<open>The argument of \<open>print\<close> in \<open>helptext()\<close>: the literal after \<open>textwrap.dedent\<close>.\<close>
  "helptext = unlines helptext_lines"

definition version_text :: "env \<Rightarrow> string" where
  \<comment> \<open>The argument of \<open>print\<close> at lines 159-165, after \<open>textwrap.dedent\<close>.\<close>
  "version_text env =
     unlines
       [''jello:   Version: '' @ jello_version env,
        ''         Author: '' @ jello_author env,
        ''         Website: '' @ jello_website env,
        ''         Copyright: '' @ jello_copyright env,
        ''         License: '' @ jello_license env]"

definition missing_data_message :: string where
  "missing_data_message = ''jello:  missing piped JSON or JSON Lines data'' @ [CHR 0x0A]"

definition load_message :: "exn \<Rightarrow> string" where
  \<comment> \<open>The argument of \<open>print_error\<close> at line 183.\<close>
  "load_message e =
     ''jello:  JSON Load Exception: Cannot parse the data (Not valid JSON or JSON Lines)''
     @ [CHR 0x0A] @ ''        '' @ str_e e @ [CHR 0x0A] @ ''        ''"

definition truncate70 :: "string \<Rightarrow> string" where
  \<comment> \<open>\<open>s[:34] + ' ... ' + s[-34:]\<close> when \<open>len(s) > 70\<close>\<close>
  "truncate70 s =
     (if length s > 70 then take 34 s @ '' ... '' @ drop (length s - 34) s else s)"

definition ex_line :: "string \<Rightarrow> string \<Rightarrow> string" where
  "ex_line item_name item =
     (if item \<noteq> [] then ''        '' @ item_name @ '': '' @ item @ [CHR 0x0A] else [])"

definition print_exception ::
  "exn \<Rightarrow> string \<Rightarrow> string \<Rightarrow> string \<Rightarrow> string \<Rightarrow> string \<Rightarrow> string option" where
  \<comment> \<open>The message that \<open>print_exception\<close> prints to stderr before \<open>sys.exit(1)\<close>. The
      arguments \<open>list_dict_data\<close>, \<open>response\<close> and \<open>output\<close> are passed after \<open>str()\<close>.
      \<open>None\<close>: \<open>e.text.replace\<close> raises \<open>AttributeError\<close> and nothing is printed.\<close>
  "print_exception e list_dict_data query response output ex_type =
     (let list_dict_data = truncate70 (replace_nl list_dict_data);
          query = truncate70 (replace_nl query);
          response = truncate70 (replace_nl response);
          output = truncate70 (replace_nl output)
      in case e_text e of
           NotStr \<Rightarrow> None
         | t \<Rightarrow>
            (let e_text = (case t of Text s \<Rightarrow> remove_nl s | _ \<Rightarrow> [])
             in Some (''jello:  '' @ ex_type @ '' Exception:  '' @ class_name e @ [CHR 0x0A]
                      @ ''        '' @ str_e e @ [CHR 0x0A]
                      @ (if e_text \<noteq> [] then ''        '' @ e_text @ [CHR 0x0A] else [])
                      @ ex_line ''query'' query
                      @ ex_line ''data'' list_dict_data
                      @ ex_line ''response'' response
                      @ ex_line ''output'' output)))"

definition exception_exit :: "string option \<Rightarrow> stage list \<Rightarrow> opts \<Rightarrow> outcome" where
  \<comment> \<open>How a call of \<open>print_exception\<close> ends \<open>main\<close>.\<close>
  "exception_exit m cs st =
     (case m of
        None \<Rightarrow> \<lparr>stdout = [], stderr = [], status = Uncaught, calls = cs, opts_after = st\<rparr>
      | Some message \<Rightarrow>
          \<lparr>stdout = [], stderr = [message], status = Exit 1, calls = cs, opts_after = st\<rparr>)"

definition print_error :: "string \<Rightarrow> stage list \<Rightarrow> opts \<Rightarrow> outcome" where
  "print_error message cs st =
     \<lparr>stdout = [], stderr = [message], status = Exit 1, calls = cs, opts_after = st\<rparr>"

definition helptext_exit :: "opts \<Rightarrow> outcome" where
  \<comment> \<open>\<open>helptext()\<close>: the help text is printed and \<open>sys.exit()\<close> ends the call.\<close>
  "helptext_exit st =
     \<lparr>stdout = [helptext], stderr = [], status = Exit 0, calls = [], opts_after = st\<rparr>"

datatype parsed =
  Helptext
| Parsed "char list" "string \<rightharpoonup> int" string

fun parse_args ::
  "nat \<Rightarrow> string list \<Rightarrow> char list \<Rightarrow> (string \<rightharpoonup> int) \<Rightarrow> string \<Rightarrow> parsed" where
  \<comment> \<open>The loop of lines 131-143 over \<open>sys.argv[1:]\<close>. \<open>Helptext\<close>: the \<open>except\<close> branch
      called \<open>helptext()\<close>, which ends the call. The first argument is the
      interpreter's limit for \<open>int(v)\<close>.\<close>
  "parse_args lim [] options long_options query = Parsed options long_options query"
| "parse_args lim (arg # args) options long_options query =
     (if startswith arg ''-'' \<and> \<not> startswith arg ''--'' then
        parse_args lim args (options @ drop 1 arg) long_options query
      else if startswith arg ''--'' then
        (case split_on CHR ''='' (drop 2 arg) of
           [k, v] \<Rightarrow>
             (case py_int lim v of
                Some n \<Rightarrow> parse_args lim args options (long_options(k \<mapsto> n)) query
              | None \<Rightarrow> Helptext)
         | _ \<Rightarrow> Helptext)
      else parse_args lim args options long_options arg)"

definition set_opts :: "opts \<Rightarrow> char list \<Rightarrow> opts" where
  \<comment> \<open>Lines 145-153.\<close>
  "set_opts st options =
     \<lparr>compact = compact st \<or> CHR ''c'' \<in> set options,
      initialize = initialize st \<or> CHR ''i'' \<in> set options,
      lines = lines st \<or> CHR ''l'' \<in> set options,
      mono_opt = mono_opt st \<or> CHR ''m'' \<in> set options,
      nulls = nulls st \<or> CHR ''n'' \<in> set options,
      raw = raw st \<or> CHR ''r'' \<in> set options,
      schema = schema st \<or> CHR ''s'' \<in> set options,
      version_info = version_info st \<or> CHR ''v'' \<in> set options,
      helpme = helpme st \<or> CHR ''h'' \<in> set options\<rparr>"

definition format_output :: "env \<Rightarrow> 'v lib \<Rightarrow> opts \<Rightarrow> 'v \<Rightarrow> (exn + string) \<times> opts" where
  \<comment> \<open>The \<open>try\<close> body of lines 196-206: the value of \<open>output\<close>, or the exception.\<close>
  "format_output env lib st response =
     (if schema st then
        (case schema_set_colors lib st of
           Some e \<Rightarrow> (Inl e, st)
         | None \<Rightarrow>
            (let st' = (if \<not> stdout_isatty env \<or> \<not> PYGMENTS_INSTALLED env
                        then st\<lparr>mono_opt := True\<rparr> else st)
             in (schema_text lib st' response, st')))
      else (create_json lib st response, st))"

definition print_output :: "env \<Rightarrow> 'v lib \<Rightarrow> opts \<Rightarrow> string \<Rightarrow> exn + string" where
  \<comment> \<open>The \<open>try\<close> body of lines 213-235: the argument of \<open>print\<close>, or the exception.\<close>
  "print_output env lib st output =
     (if schema st then Inr output
      else if \<not> mono_opt st \<and> \<not> raw st \<and> stdout_isatty env \<and> PYGMENTS_INSTALLED env then
        (case highlight lib st output of
           Inl e \<Rightarrow> Inl e
         | Inr highlighted_json \<Rightarrow> Inr (butlast highlighted_json))
      else Inr output)"

definition process :: "env \<Rightarrow> 'v lib \<Rightarrow> string \<Rightarrow> string \<Rightarrow> opts \<Rightarrow> outcome" where
  \<comment> \<open>Lines 174-238, the body of \<open>if data and not data.isspace()\<close>.\<close>
  "process env lib data query st =
     (case load_json lib data of
        Inl e \<Rightarrow> print_error (load_message e) [Load] st
      | Inr list_dict_data \<Rightarrow>
         (case pyquery lib st list_dict_data query of
            (Inl e, st1) \<Rightarrow>
              exception_exit
                (print_exception e (py_str lib list_dict_data) query [] [] ''Query'')
                [Load, Query] st1
          | (Inr response, st1) \<Rightarrow>
             (case format_output env lib st1 response of
                (Inl e, st2) \<Rightarrow>
                  exception_exit
                    (print_exception e (py_str lib list_dict_data) query
                       (py_str lib response) [] ''Formatting'')
                    [Load, Query, Format] st2
              | (Inr output, st2) \<Rightarrow>
                 (case print_output env lib st2 output of
                    Inl e \<Rightarrow>
                      exception_exit
                        (print_exception e (py_str lib list_dict_data) query
                           (py_str lib response) output ''Output'')
                        [Load, Query, Format, Output] st2
                  | Inr printed \<Rightarrow>
                      \<lparr>stdout = [printed], stderr = [], status = Returned,
                       calls = [Load, Query, Format, Output], opts_after = st2\<rparr>))))"

definition input_data :: "env \<Rightarrow> string option \<Rightarrow> string option" where
  \<comment> \<open>Lines 125-126: \<open>data\<close> after \<open>if data is None: data = get_stdin()\<close>.\<close>
  "input_data env data = (case data of None \<Rightarrow> get_stdin env | Some d \<Rightarrow> Some d)"

definition main :: "env \<Rightarrow> 'v lib \<Rightarrow> string option \<Rightarrow> string \<Rightarrow> opts \<Rightarrow> outcome" where
  \<comment> \<open>\<open>main(data, query)\<close>, called when \<open>opts\<close> holds \<open>st\<close>. The signal handlers and
      \<open>os.system('')\<close> of lines 113-123 write nothing and are left out.\<close>
  "main env lib data query st =
     (let data = input_data env data
      in case parse_args (int_max_str_digits env) (argv env) [] Map.empty query of
           Helptext \<Rightarrow> helptext_exit st
         | Parsed options long_options query \<Rightarrow>
            (let st = set_opts st options
             in if helpme st then helptext_exit st
                else if version_info st then
                  \<lparr>stdout = [version_text env], stderr = [], status = Exit 0,
                   calls = [], opts_after = st\<rparr>
                else
                  (case data of
                     None \<Rightarrow> print_error missing_data_message [] st
                   | Some d \<Rightarrow>
                       if d \<noteq> [] \<and> \<not> isspace d then process env lib d query st
                       else \<lparr>stdout = [], stderr = [], status = Returned,
                             calls = [], opts_after = st\<rparr>)))"

definition run :: "env \<Rightarrow> 'v lib \<Rightarrow> opts \<Rightarrow> outcome" where
  \<comment> \<open>\<open>main()\<close> as line 242 calls it: both parameters at the defaults of line 111.\<close>
  "run env lib st = main env lib None ''_'' st"


subsection \<open>Notions used to state the properties of \<open>main\<close>\<close>

definition long_option_ok :: "nat \<Rightarrow> string \<Rightarrow> bool" where
  \<comment> \<open>A \<open>--\<close> argument on which the \<open>try\<close> body of lines 137-138 does not raise, under
      the interpreter's limit \<open>lim\<close> for \<open>int(v)\<close>.\<close>
  "long_option_ok lim arg =
     (startswith arg ''--'' \<and>
      (case split_on CHR ''='' (drop 2 arg) of
         [k, v] \<Rightarrow> py_int lim v \<noteq> None
       | _ \<Rightarrow> False))"

fun parsed_view :: "parsed \<Rightarrow> (char list \<times> string) option" where
  \<comment> \<open>What \<open>main\<close> reads of the loop's result: \<open>options\<close> and \<open>query\<close>. \<open>long_options\<close> is
      not read after line 138.\<close>
  "parsed_view Helptext = None"
| "parsed_view (Parsed options long_options query) = Some (options, query)"

definition non_option :: "string \<Rightarrow> bool" where
  \<comment> \<open>An argument that reaches the \<open>else\<close> branch of line 142.\<close>
  "non_option arg = (\<not> startswith arg ''-'')"

definition parsed_query :: "env \<Rightarrow> string \<Rightarrow> string" where
  \<comment> \<open>The value of \<open>query\<close> after the loop of lines 131-143.\<close>
  "parsed_query env query =
     (case parse_args (int_max_str_digits env) (argv env) [] Map.empty query of
        Helptext \<Rightarrow> query
      | Parsed options long_options query' \<Rightarrow> query')"

definition parsed_opts :: "env \<Rightarrow> string \<Rightarrow> opts \<Rightarrow> opts" where
  \<comment> \<open>\<open>opts\<close> after line 153.\<close>
  "parsed_opts env query st =
     (case parse_args (int_max_str_digits env) (argv env) [] Map.empty query of
        Helptext \<Rightarrow> st
      | Parsed options long_options query' \<Rightarrow> set_opts st options)"

definition proceeds :: "env \<Rightarrow> string \<Rightarrow> opts \<Rightarrow> bool" where
  \<comment> \<open>The call gets past the handling of the arguments (lines 131-166): no \<open>--\<close>
      argument is rejected, and neither help nor version information is asked for.\<close>
  "proceeds env query st =
     (case parse_args (int_max_str_digits env) (argv env) [] Map.empty query of
        Helptext \<Rightarrow> False
      | Parsed options long_options query' \<Rightarrow>
          \<not> helpme (set_opts st options) \<and> \<not> version_info (set_opts st options))"

definition opts_le :: "opts \<Rightarrow> opts \<Rightarrow> bool" where
  \<comment> \<open>Every option that is set in \<open>a\<close> is set in \<open>b\<close>.\<close>
  "opts_le a b =
     ((compact a \<longrightarrow> compact b) \<and> (initialize a \<longrightarrow> initialize b) \<and> (lines a \<longrightarrow> lines b) \<and>
      (mono_opt a \<longrightarrow> mono_opt b) \<and> (nulls a \<longrightarrow> nulls b) \<and> (raw a \<longrightarrow> raw b) \<and>
      (schema a \<longrightarrow> schema b) \<and> (version_info a \<longrightarrow> version_info b) \<and>
      (helpme a \<longrightarrow> helpme b))"

definition error_exit :: "outcome \<Rightarrow> bool" where
  \<comment> \<open>The call ended with a nonzero exit status, by \<open>sys.exit(1)\<close> or by an exception
      that escaped.\<close>
  "error_exit out = (status out = Exit 1 \<or> status out = Uncaught)"



section \<open>The document model, the loader and the query engine of the specification\<close>

text \<open>
  \<open>load_json\<close> and \<open>pyquery\<close> are defined in \<open>jello/lib.py\<close>, which is not among the
  sources. The definitions of this section follow sections 3, 4.1, 4.2 and 4.3 of the
  specification instead.
\<close>

datatype doc_value =
  VNull
| VBool bool
| VInt "64 word"
| VFloat "64 word"
| VStr string
| VList "doc_value list"
| VMap "(string \<times> doc_value) list"

datatype load_error = ParseError nat nat

definition blank_line :: "string \<Rightarrow> bool" where
  "blank_line l = list_all isspace_char l"

definition numbered_lines :: "string \<Rightarrow> (nat \<times> string) list" where
  \<comment> \<open>The non-blank lines of a text with their line numbers, from 1.\<close>
  "numbered_lines t =
     (let ls = split_on (CHR 0x0A) t
      in filter (\<lambda>(n, l). \<not> blank_line l) (zip [1 ..< Suc (length ls)] ls))"

fun load_lines ::
  "(string \<Rightarrow> nat + doc_value) \<Rightarrow> (nat \<times> string) list \<Rightarrow> load_error + doc_value list" where
  "load_lines json_loads [] = Inr []"
| "load_lines json_loads ((n, l) # ls) =
     (case json_loads l of
        Inl off \<Rightarrow> Inl (ParseError n off)
      | Inr v \<Rightarrow>
         (case load_lines json_loads ls of
            Inl e \<Rightarrow> Inl e
          | Inr vs \<Rightarrow> Inr (v # vs)))"

definition load_json_spec :: "(string \<Rightarrow> nat + doc_value) \<Rightarrow> string \<Rightarrow> load_error + doc_value" where
  \<comment> \<open>Modelled from the spec: \<open>load_json\<close> of \<open>jello/lib.py\<close> is missing; this is the
      Document Loader of section 4.1. The parser of one JSON value is the parameter
      \<open>json_loads\<close>, \<open>Inl off\<close> being a failure at offset \<open>off\<close>. A text without any
      non-blank line that is no JSON value fails with the error of the first attempt.\<close>
  "load_json_spec json_loads t =
     (case json_loads t of
        Inr v \<Rightarrow> Inr v
      | Inl off \<Rightarrow>
         (case numbered_lines t of
            [] \<Rightarrow> Inl (ParseError 1 off)
          | nls \<Rightarrow>
             (case load_lines json_loads nls of
                Inl e \<Rightarrow> Inl e
              | Inr [v] \<Rightarrow> Inr v
              | Inr vs \<Rightarrow> Inr (VList vs))))"

definition valid_json :: "(string \<Rightarrow> nat + doc_value) \<Rightarrow> string \<Rightarrow> bool" where
  "valid_json json_loads t = (\<not> isl (json_loads t))"

definition valid_json_lines :: "(string \<Rightarrow> nat + doc_value) \<Rightarrow> string \<Rightarrow> bool" where
  \<comment> \<open>JSON-Lines: one JSON value per non-blank line, and at least one such line.\<close>
  "valid_json_lines json_loads t =
     (numbered_lines t \<noteq> [] \<and> list_all (\<lambda>(n, l). \<not> isl (json_loads l)) (numbered_lines t))"

datatype key = StrKey string | IntKey int

datatype step =
  Attribute string
| Key key
| Slice "int option" "int option" "int option"
| WholeValue

datatype query_error =
  SyntaxError
| KeyNotFound string
| IndexOutOfRange int
| TypeMismatch
| InvalidSlice

definition ident_start :: "char \<Rightarrow> bool" where
  "ident_start c =
     (let n = (of_char c :: nat)
      in (65 \<le> n \<and> n \<le> 90) \<or> (97 \<le> n \<and> n \<le> 122) \<or> c = CHR ''_'')"

definition ident_char :: "char \<Rightarrow> bool" where
  "ident_char c = (ident_start c \<or> is_digit c)"

definition valid_ident :: "string \<Rightarrow> bool" where
  "valid_ident s = (case s of [] \<Rightarrow> False | c # cs \<Rightarrow> ident_start c \<and> list_all ident_char cs)"

definition parse_nat :: "string \<Rightarrow> nat option" where
  "parse_nat s =
     (if s \<noteq> [] \<and> list_all is_digit s
      then Some (foldl (\<lambda>acc c. 10 * acc + digit_val c) 0 s) else None)"

definition parse_integer :: "string \<Rightarrow> int option" where
  "parse_integer s =
     (case s of
        [] \<Rightarrow> None
      | c # cs \<Rightarrow>
          if c = CHR ''-'' then map_option (\<lambda>n. - int n) (parse_nat cs)
          else map_option int (parse_nat s))"

definition parse_bound :: "string \<Rightarrow> int option option" where
  \<comment> \<open>One component of a slice: absent, or an integer. The outer \<open>None\<close> is a failure.\<close>
  "parse_bound s = (if s = [] then Some None else map_option Some (parse_integer s))"

definition parse_bracket :: "string \<Rightarrow> step option" where
  \<comment> \<open>The text between \<open>[\<close> and \<open>]\<close> when it is not quoted: an index or a slice.\<close>
  "parse_bracket s =
     (if CHR '':'' \<in> set s then
        (case map parse_bound (split_on CHR '':'' s) of
           [Some a, Some b] \<Rightarrow> Some (Slice a b None)
         | [Some a, Some b, Some c] \<Rightarrow> Some (Slice a b c)
         | _ \<Rightarrow> None)
      else map_option (\<lambda>i. Key (IntKey i)) (parse_integer s))"

datatype mode =
  Top
| InAttribute string
| InBracket string
| InQuote char string
| AfterQuote string

fun scan :: "mode \<Rightarrow> string \<Rightarrow> step list option" where
  "scan Top [] = Some []"
| "scan Top (c # cs) =
     (if c = CHR ''.'' then scan (InAttribute []) cs
      else if c = CHR ''['' then scan (InBracket []) cs
      else None)"
| "scan (InAttribute name) [] = (if valid_ident name then Some [Attribute name] else None)"
| "scan (InAttribute name) (c # cs) =
     (if ident_char c then scan (InAttribute (name @ [c])) cs
      else if valid_ident name \<and> c = CHR ''.'' then
        map_option ((#) (Attribute name)) (scan (InAttribute []) cs)
      else if valid_ident name \<and> c = CHR ''['' then
        map_option ((#) (Attribute name)) (scan (InBracket []) cs)
      else None)"
| "scan (InBracket inner) [] = None"
| "scan (InBracket inner) (c # cs) =
     (if c = CHR '']'' then
        (case parse_bracket inner of
           None \<Rightarrow> None
         | Some st \<Rightarrow> map_option ((#) st) (scan Top cs))
      else if inner = [] \<and> (c = CHR 0x22 \<or> c = CHR 0x27) then scan (InQuote c []) cs
      else scan (InBracket (inner @ [c])) cs)"
| "scan (InQuote q name) [] = None"
| "scan (InQuote q name) (c # cs) =
     (if c = q then scan (AfterQuote name) cs else scan (InQuote q (name @ [c])) cs)"
| "scan (AfterQuote name) [] = None"
| "scan (AfterQuote name) (c # cs) =
     (if c = CHR '']'' then map_option ((#) (Key (StrKey name))) (scan Top cs) else None)"

definition parse_query :: "string \<Rightarrow> step list option" where
  \<comment> \<open>Modelled from the spec: the query parser of \<open>jello/lib.py\<close> is missing; this is
      the grammar of section 4.2: an optional root marker \<open>_\<close>, then steps.\<close>
  "parse_query q =
     (case q of
        [] \<Rightarrow> Some []
      | c # cs \<Rightarrow>
          if c = CHR ''_'' then map_option ((#) WholeValue) (scan Top cs) else scan Top q)"

definition clamp_bound :: "int \<Rightarrow> int \<Rightarrow> int \<Rightarrow> int" where
  "clamp_bound n stp b =
     (let b' = (if b < 0 then b + n else b)
      in if b' < 0 then (if stp < 0 then - 1 else 0)
         else if n \<le> b' then (if stp < 0 then n - 1 else n)
         else b')"

definition slice_indices :: "int \<Rightarrow> int option \<Rightarrow> int option \<Rightarrow> int \<Rightarrow> nat list" where
  "slice_indices n start stop stp =
     (if 0 < stp then
        (let a = (case start of None \<Rightarrow> 0 | Some b \<Rightarrow> clamp_bound n stp b);
             z = (case stop of None \<Rightarrow> n | Some b \<Rightarrow> clamp_bound n stp b);
             cnt = (if a < z then nat ((z - a - 1) div stp + 1) else 0)
         in map (\<lambda>k. nat (a + int k * stp)) [0 ..< cnt])
      else
        (let a = (case start of None \<Rightarrow> n - 1 | Some b \<Rightarrow> clamp_bound n stp b);
             z = (case stop of None \<Rightarrow> - 1 | Some b \<Rightarrow> clamp_bound n stp b);
             cnt = (if z < a then nat ((a - z - 1) div (- stp) + 1) else 0)
         in map (\<lambda>k. nat (a + int k * stp)) [0 ..< cnt]))"

definition py_slice ::
  "'a list \<Rightarrow> int option \<Rightarrow> int option \<Rightarrow> int option \<Rightarrow> query_error + 'a list" where
  "py_slice xs start stop stp =
     (let s = (case stp of None \<Rightarrow> 1 | Some s \<Rightarrow> s)
      in if s = 0 then Inl InvalidSlice
         else Inr (map (\<lambda>i. xs ! i) (slice_indices (int (length xs)) start stop s)))"

definition lookup_key :: "(string \<times> doc_value) list \<Rightarrow> string \<Rightarrow> query_error + doc_value" where
  "lookup_key m name = (case map_of m name of None \<Rightarrow> Inl (KeyNotFound name) | Some v \<Rightarrow> Inr v)"

definition index_list :: "doc_value list \<Rightarrow> int \<Rightarrow> query_error + doc_value" where
  \<comment> \<open>A negative index counts from the end; an index without an element fails.\<close>
  "index_list xs k =
     (let n = int (length xs); j = (if k < 0 then k + n else k)
      in if 0 \<le> j \<and> j < n then Inr (xs ! nat j) else Inl (IndexOutOfRange k))"

fun eval_step :: "step \<Rightarrow> doc_value \<Rightarrow> query_error + doc_value" where
  "eval_step WholeValue v = Inr v"
| "eval_step (Attribute name) (VMap m) = lookup_key m name"
| "eval_step (Attribute name) _ = Inl TypeMismatch"
| "eval_step (Key (StrKey name)) (VMap m) = lookup_key m name"
| "eval_step (Key (IntKey k)) (VList xs) = index_list xs k"
| "eval_step (Key _) _ = Inl TypeMismatch"
| "eval_step (Slice a b c) (VList xs) = map_sum id VList (py_slice xs a b c)"
| "eval_step (Slice a b c) (VStr s) = map_sum id VStr (py_slice s a b c)"
| "eval_step (Slice a b c) _ = Inl TypeMismatch"

fun eval_path :: "step list \<Rightarrow> doc_value \<Rightarrow> query_error + doc_value" where
  "eval_path [] v = Inr v"
| "eval_path (s # ss) v =
     (case eval_step s v of
        Inl e \<Rightarrow> Inl e
      | Inr v' \<Rightarrow> eval_path ss v')"

definition query_engine :: "doc_value \<Rightarrow> string \<Rightarrow> query_error + doc_value" where
  \<comment> \<open>Modelled from the spec: \<open>pyquery\<close> of \<open>jello/lib.py\<close> is missing; this is the Query
      Engine of sections 4.2 and 4.3, parser then evaluator.\<close>
  "query_engine doc q =
     (case parse_query q of
        None \<Rightarrow> Inl SyntaxError
      | Some path \<Rightarrow> eval_path path doc)"

definition engine_pyquery ::
  "(query_error \<Rightarrow> exn) \<Rightarrow> opts \<Rightarrow> doc_value \<Rightarrow> string \<Rightarrow> (exn + doc_value) \<times> opts" where
  \<comment> \<open>The query engine in the place of \<open>pyquery\<close>. How an error value is turned into the
      exception that \<open>main\<close> reports is left to the parameter \<open>render\<close>; \<open>opts\<close> is not
      assigned.\<close>
  "engine_pyquery render st doc q = (map_sum render id (query_engine doc q), st)"

definition spec_load_json ::
  "(string \<Rightarrow> nat + doc_value) \<Rightarrow> (load_error \<Rightarrow> exn) \<Rightarrow> string \<Rightarrow> exn + doc_value" where
  \<comment> \<open>The loader of the specification in the place of \<open>load_json\<close>.\<close>
  "spec_load_json json_loads render t = map_sum render id (load_json_spec json_loads t)"


section \<open>A small instance for evaluating \<open>main\<close>\<close>

text \<open>
  The theorems below hold for every library and environment. To evaluate \<open>main\<close> on
  concrete inputs, \<open>demo_lib\<close> fills the parameters in: its loader is the loader of the
  specification over a reader of the three JSON literal names, its query stage is the
  query engine of the specification, and its two back-ends print a literal name.
\<close>

definition demo_loads :: "string \<Rightarrow> nat + doc_value" where
  "demo_loads t =
     (let s = strip t
      in if s = ''null'' then Inr VNull
         else if s = ''true'' then Inr (VBool True)
         else if s = ''false'' then Inr (VBool False)
         else Inl 0)"

definition demo_show :: "doc_value \<Rightarrow> string" where
  "demo_show v =
     (case v of
        VNull \<Rightarrow> ''null''
      | VBool b \<Rightarrow> (if b then ''true'' else ''false'')
      | _ \<Rightarrow> ''...'')"

definition demo_exn :: "string \<Rightarrow> exn" where
  "demo_exn name = \<lparr>class_name = name, str_e = ''rejected'', e_text = NoAttr\<rparr>"

definition demo_lib :: "doc_value lib" where
  "demo_lib =
     \<lparr>load_json = spec_load_json demo_loads (\<lambda>e. demo_exn ''ParseError''),
      pyquery = engine_pyquery (\<lambda>e. demo_exn ''QueryError''),
      create_json = (\<lambda>st v. Inr (demo_show v)),
      schema_set_colors = (\<lambda>st. None),
      schema_text = (\<lambda>st v. Inr (''_ = '' @ demo_show v @ '';'')),
      highlight = (\<lambda>st s. Inr (s @ [CHR 0x0A])),
      py_str = demo_show\<rparr>"

definition demo_env :: "string list \<Rightarrow> string \<Rightarrow> env" where
  \<comment> \<open>Arguments \<open>args\<close>, the text \<open>t\<close> piped to stdin, stdout not a terminal, the
      interpreter's default limit on digits.\<close>
  "demo_env args t =
     \<lparr>argv = args, int_max_str_digits = 4300, stdin_isatty = False, stdin_read = t, stdout_isatty = False,
      PYGMENTS_INSTALLED = False, jello_version = ''0'', jello_author = [],
      jello_website = [], jello_copyright = [], jello_license = []\<rparr>"

definition no_opts :: opts where
  \<comment> \<open>No option set.\<close>
  "no_opts =
     \<lparr>compact = False, initialize = False, lines = False, mono_opt = False, nulls = False,
      raw = False, schema = False, version_info = False, helpme = False\<rparr>"


section \<open>The argument loop\<close>

lemma startswith_dd_d: "startswith a ''--'' \<Longrightarrow> startswith a ''-''"
  by (cases a) (auto simp: startswith_def)





lemma parse_args_option_step:
  assumes "startswith x ''-''"
  shows "(\<forall>ys os lo q. parse_args lim (x # ys) os lo q = Helptext) \<or>
         (\<exists>f g. \<forall>ys os lo q. parse_args lim (x # ys) os lo q = parse_args lim ys (f os) (g lo) q)"
proof (cases "startswith x ''--''")
  case False
  with assms have "\<forall>ys os lo q. parse_args lim (x # ys) os lo q
      = parse_args lim ys (os @ drop 1 x) lo q"
    by simp
  then have "\<exists>f g. \<forall>ys os lo q. parse_args lim (x # ys) os lo q = parse_args lim ys (f os) (g lo) q"
    by (intro exI [where x = "\<lambda>os. os @ drop 1 x"] exI [where x = "\<lambda>lo. lo"]) simp
  then show ?thesis by (rule disjI2)
next
  case True
  show ?thesis
  proof (cases "long_option_ok lim x")
    case False
    have "\<forall>ys os lo q. parse_args lim (x # ys) os lo q = Helptext"
      using True False by (auto simp: long_option_ok_def split: list.splits option.splits)
    then show ?thesis by blast
  next
    case ok: True
    then obtain k v n where sp: "split_on CHR ''='' (drop 2 x) = [k, v]"
      and pi: "py_int lim v = Some n"
      by (auto simp: long_option_ok_def split: list.splits)
    have "\<forall>ys os lo q. parse_args lim (x # ys) os lo q = parse_args lim ys os (lo(k \<mapsto> n)) q"
      using True sp pi by simp
    then have "\<exists>f g. \<forall>ys os lo q. parse_args lim (x # ys) os lo q = parse_args lim ys (f os) (g lo) q"
      by (intro exI [where x = "\<lambda>os. os"] exI [where x = "\<lambda>lo. lo(k \<mapsto> n)"]) simp
    then show ?thesis by (rule disjI2)
  qed
qed

lemma view_last_query:
  "parsed_view (parse_args lim args os lo q) =
   parsed_view (parse_args lim (filter (\<lambda>a. \<not> non_option a) args) os lo (last (q # filter non_option args)))"
proof (induction args arbitrary: os lo q)
  case Nil
  show ?case by simp
next
  case (Cons x args)
  show ?case
  proof (cases "non_option x")
    case True
    then have nd: "\<not> startswith x ''-''" "\<not> startswith x ''--''"
      using startswith_dd_d by (auto simp: non_option_def)
    have "parse_args lim (x # args) os lo q = parse_args lim args os lo x" using nd by simp
    then show ?thesis using True Cons.IH [of os lo x] by simp
  next
    case False
    then have d: "startswith x ''-''" by (simp add: non_option_def)
    let ?f = "filter (\<lambda>a. \<not> non_option a) args"
    let ?q = "last (q # filter non_option args)"
    have flt: "filter (\<lambda>a. \<not> non_option a) (x # args) = x # ?f"
      and lst: "last (q # filter non_option (x # args)) = ?q"
      using False by simp_all
    from parse_args_option_step [OF d] show ?thesis
    proof
      assume "\<forall>ys os lo q. parse_args lim (x # ys) os lo q = Helptext"
      then show ?thesis unfolding flt lst by simp
    next
      assume "\<exists>f g. \<forall>ys os lo q. parse_args lim (x # ys) os lo q = parse_args lim ys (f os) (g lo) q"
      then obtain f g where
        st: "\<And>ys os lo q. parse_args lim (x # ys) os lo q = parse_args lim ys (f os) (g lo) q"
        by blast
      show ?thesis unfolding flt lst st by (rule Cons.IH)
    qed
  qed
qed

lemma format_output_argv [simp]: "format_output (env\<lparr>argv := a\<rparr>) lib st r = format_output env lib st r"
  by (auto simp: format_output_def)

lemma print_output_argv [simp]: "print_output (env\<lparr>argv := a\<rparr>) lib st out = print_output env lib st out"
  by (simp add: print_output_def)

lemma process_argv [simp]: "process (env\<lparr>argv := a\<rparr>) lib d q st = process env lib d q st"
  by (simp add: process_def split: sum.split prod.split)

lemma main_view_cong:
  assumes "parsed_view (parse_args (int_max_str_digits env) a1 [] Map.empty q1) = parsed_view (parse_args (int_max_str_digits env) a2 [] Map.empty q2)"
  shows "main (env\<lparr>argv := a1\<rparr>) lib d q1 st = main (env\<lparr>argv := a2\<rparr>) lib d q2 st"
proof (cases "parse_args (int_max_str_digits env) a1 [] Map.empty q1")
  case Helptext
  with assms have "parse_args (int_max_str_digits env) a2 [] Map.empty q2 = Helptext"
    by (cases "parse_args (int_max_str_digits env) a2 [] Map.empty q2") simp_all
  with Helptext show ?thesis by (simp add: main_def)
next
  case (Parsed os lo q)
  with assms obtain lo' where "parse_args (int_max_str_digits env) a2 [] Map.empty q2 = Parsed os lo' q"
    by (cases "parse_args (int_max_str_digits env) a2 [] Map.empty q2") simp_all
  with Parsed show ?thesis
    by (simp add: main_def input_data_def get_stdin_def version_text_def Let_def split: option.split)
qed

lemma parse_args_query:
  "parse_args lim args os lo q = Parsed os' lo' q' \<Longrightarrow> q' = last (q # filter non_option args)"
proof (induction args arbitrary: os lo q)
  case Nil
  then show ?case by simp
next
  case (Cons x args)
  show ?case
  proof (cases "non_option x")
    case True
    then have nd: "\<not> startswith x ''-''" "\<not> startswith x ''--''"
      using startswith_dd_d by (auto simp: non_option_def)
    have "parse_args lim (x # args) os lo q = parse_args lim args os lo x" using nd by simp
    with Cons.prems have "q' = last (x # filter non_option args)" using Cons.IH by simp
    then show ?thesis using True by simp
  next
    case False
    then have d: "startswith x ''-''" by (simp add: non_option_def)
    from parse_args_option_step [OF d] show ?thesis
    proof
      assume "\<forall>ys os lo q. parse_args lim (x # ys) os lo q = Helptext"
      with Cons.prems show ?thesis by simp
    next
      assume "\<exists>f g. \<forall>ys os lo q. parse_args lim (x # ys) os lo q = parse_args lim ys (f os) (g lo) q"
      then obtain f g where
        st: "\<And>ys os lo q. parse_args lim (x # ys) os lo q = parse_args lim ys (f os) (g lo) q"
        by blast
      from Cons.prems have "parse_args lim args (f os) (g lo) q = Parsed os' lo' q'"
        unfolding st .
      then have "q' = last (q # filter non_option args)" by (rule Cons.IH)
      then show ?thesis using False by simp
    qed
  qed
qed


















section \<open>Properties of \<open>main\<close>\<close>

lemmas demo_defs = demo_env_def demo_lib_def demo_loads_def demo_show_def demo_exn_def no_opts_def



lemma env_argv_id: "env\<lparr>argv := argv env\<rparr> = env" by simp

text \<open>
  C10. When the argument list holds non-option arguments (arguments that do not start
  with \<open>-\<close>), each of them overwrites \<open>query\<close>: after the loop \<open>query\<close> is the last
  non-option argument, \<open>main\<close> ends exactly as it does when that argument is passed as
  the query and all non-option arguments are removed from the list, and removing any
  non-option argument that is followed by another one changes nothing.
\<close>

theorem last_non_option_is_query:
  assumes "filter non_option (argv env) \<noteq> []"
  shows "(parse_args (int_max_str_digits env) (argv env) [] Map.empty q \<noteq> Helptext \<longrightarrow>
            parsed_query env q = last (filter non_option (argv env))) \<and>
         main env lib data q st =
           main (env\<lparr>argv := filter (\<lambda>a. \<not> non_option a) (argv env)\<rparr>) lib data
             (last (filter non_option (argv env))) st \<and>
         (\<forall>xs a ys. argv env = xs @ a # ys \<and> non_option a \<and> filter non_option ys \<noteq> [] \<longrightarrow>
            main env lib data q st = main (env\<lparr>argv := xs @ ys\<rparr>) lib data q st)"
proof (intro conjI impI allI)
  assume "parse_args (int_max_str_digits env) (argv env) [] Map.empty q \<noteq> Helptext"
  then obtain os lo q' where p: "parse_args (int_max_str_digits env) (argv env) [] Map.empty q = Parsed os lo q'"
    by (cases "parse_args (int_max_str_digits env) (argv env) [] Map.empty q") simp_all
  from parse_args_query [OF p] assms p
  show "parsed_query env q = last (filter non_option (argv env))"
    by (simp add: parsed_query_def)
next
  let ?f = "filter (\<lambda>a. \<not> non_option a) (argv env)"
  let ?l = "last (filter non_option (argv env))"
  have "filter non_option ?f = []" by (induction "argv env") (simp_all add: filter_empty_conv)
  then have "parsed_view (parse_args (int_max_str_digits env) (argv env) [] Map.empty q)
      = parsed_view (parse_args (int_max_str_digits env) ?f [] Map.empty ?l)"
    using view_last_query [where args = "argv env" and os = "[]" and lo = Map.empty and q = q
        and lim = "int_max_str_digits env"] assms
    by simp
  from main_view_cong [OF this, where lib = lib and d = data and st = st]
  show "main env lib data q st = main (env\<lparr>argv := ?f\<rparr>) lib data ?l st"
    by (simp add: env_argv_id)
next
  fix xs a ys
  assume h: "argv env = xs @ a # ys \<and> non_option a \<and> filter non_option ys \<noteq> []"
  have "parsed_view (parse_args (int_max_str_digits env) (xs @ a # ys) [] Map.empty q)
      = parsed_view (parse_args (int_max_str_digits env) (xs @ ys) [] Map.empty q)"
    using h
      view_last_query [where args = "xs @ a # ys" and os = "[]" and lo = Map.empty and q = q
        and lim = "int_max_str_digits env"]
      view_last_query [where args = "xs @ ys" and os = "[]" and lo = Map.empty and q = q
        and lim = "int_max_str_digits env"]
    by simp
  from main_view_cong [OF this, where lib = lib and d = data and st = st] h
  show "main env lib data q st = main (env\<lparr>argv := xs @ ys\<rparr>) lib data q st"
    by (metis env_argv_id)
qed

theorem last_non_option_is_query_witness:
  "filter non_option (argv (demo_env [''_.a'', ''-s'', ''_''] ''true'')) \<noteq> [] \<and>
   parsed_query (demo_env [''_.a'', ''-s'', ''_''] ''true'') ''_.b'' = ''_'' \<and>
   main (demo_env [''_.a'', ''-s'', ''_''] ''true'') demo_lib None ''_.b'' no_opts
     = main (demo_env [''-s''] ''true'') demo_lib None ''_'' no_opts \<and>
   main (demo_env [''_.a'', ''-s'', ''_''] ''true'') demo_lib None ''_.b'' no_opts
     = main (demo_env [''-s'', ''_''] ''true'') demo_lib None ''_.b'' no_opts \<and>
   stdout (main (demo_env [''_.a'', ''-s'', ''_''] ''true'') demo_lib None ''_.b'' no_opts)
     = [''_ = true;'']"
proof -
  let ?env = "demo_env [''_.a'', ''-s'', ''_''] ''true''"
  have h: "filter non_option (argv ?env) \<noteq> []"
    by code_simp
  have np: "parse_args (int_max_str_digits ?env) (argv ?env) [] Map.empty ''_.b'' \<noteq> Helptext"
    by (simp add: demo_env_def startswith_def)
  have e: "argv ?env = [] @ ''_.a'' # [''-s'', ''_''] \<and>
     non_option ''_.a'' \<and> filter non_option [''-s'', ''_''] \<noteq> []"
    by (simp add: demo_env_def non_option_def startswith_def)
  have out: "stdout (main (demo_env [''-s''] ''true'') demo_lib None ''_'' no_opts) = [''_ = true;'']"
    by code_simp
  note t = last_non_option_is_query [OF h, of "''_.b''" demo_lib None no_opts]
  from t np have c1: "parsed_query ?env ''_.b'' = last (filter non_option (argv ?env))"
    by blast
  from t have c2: "main ?env demo_lib None ''_.b'' no_opts =
      main (?env\<lparr>argv := filter (\<lambda>a. \<not> non_option a) (argv ?env)\<rparr>) demo_lib None
        (last (filter non_option (argv ?env))) no_opts"
    by blast
  from t e have c3: "main ?env demo_lib None ''_.b'' no_opts =
      main (?env\<lparr>argv := [] @ [''-s'', ''_'']\<rparr>) demo_lib None ''_.b'' no_opts"
    by blast
  have l: "last (filter non_option (argv ?env)) = ''_''"
    and f: "filter (\<lambda>a. \<not> non_option a) (argv ?env) = [''-s'']"
    by (simp_all add: demo_env_def non_option_def startswith_def)
  have u1: "?env\<lparr>argv := [''-s'']\<rparr> = demo_env [''-s''] ''true''"
    and u2: "?env\<lparr>argv := [] @ [''-s'', ''_'']\<rparr> = demo_env [''-s'', ''_''] ''true''"
    by (simp_all add: demo_env_def)
  show ?thesis
    using h c1 c2 c3 out unfolding l f u1 u2 by simp
qed



section \<open>The root query\<close>


lemma format_output_pyquery [simp]:
  "format_output env (lib\<lparr>pyquery := f\<rparr>) st r = format_output env lib st r"
  by (auto simp: format_output_def Let_def split: option.split)

lemma print_output_pyquery [simp]:
  "print_output env (lib\<lparr>pyquery := f\<rparr>) st out = print_output env lib st out"
  by (simp add: print_output_def)


text \<open>
  C7. In the query engine of the specification the root query \<open>_\<close> parses to the
  path that consists of the root reference alone, and evaluating it on any document
  returns that document unchanged; put in the place of \<open>pyquery\<close>, the engine returns
  the document and leaves \<open>opts\<close> as they are.
\<close>

theorem root_query_returns_document:
  "parse_query ''_'' = Some [WholeValue] \<and>
   query_engine doc ''_'' = Inr doc \<and>
   engine_pyquery render st doc ''_'' = (Inr doc, st)"
  by (simp add: engine_pyquery_def query_engine_def parse_query_def)

theorem root_query_returns_document_witness:
  "query_engine (VMap [(''a'', VList [VNull, VBool True])]) ''_''
     = Inr (VMap [(''a'', VList [VNull, VBool True])])"
  using root_query_returns_document [of "VMap [(''a'', VList [VNull, VBool True])]"]
  by simp





section \<open>After the arguments\<close>

text \<open>
  A call that gets past the handling of the arguments examines the data; any other call
  ends there with exit status 0, having printed the help text or the version.
\<close>

lemma main_proceeds:
  assumes "proceeds env q st"
  shows "main env lib data q st =
     (case input_data env data of
        None \<Rightarrow> print_error missing_data_message [] (parsed_opts env q st)
      | Some d \<Rightarrow>
          if d \<noteq> [] \<and> \<not> isspace d
          then process env lib d (parsed_query env q) (parsed_opts env q st)
          else \<lparr>stdout = [], stderr = [], status = Returned, calls = [],
                opts_after = parsed_opts env q st\<rparr>)"
proof (cases "parse_args (int_max_str_digits env) (argv env) [] Map.empty q")
  case Helptext
  with assms show ?thesis by (simp add: proceeds_def)
next
  case (Parsed os lo q')
  have pq: "parsed_query env q = q'" and po: "parsed_opts env q st = set_opts st os"
    using Parsed by (simp_all add: parsed_query_def parsed_opts_def)
  from assms Parsed show ?thesis
    unfolding pq po by (simp add: proceeds_def main_def Let_def)
qed

lemma main_early_exit:
  assumes "\<not> proceeds env q st"
  shows "status (main env lib data q st) = Exit 0 \<and> stderr (main env lib data q st) = [] \<and>
         calls (main env lib data q st) = []"
  using assms
  by (cases "parse_args (int_max_str_digits env) (argv env) [] Map.empty q")
     (auto simp: proceeds_def main_def helptext_exit_def Let_def)

text \<open>
  C8. For every input string that is empty or consists of whitespace only, whether it
  is passed as \<open>data\<close> or read from stdin, \<open>main\<close> reports no error: nothing is written
  to stderr, the call does not end with an error exit, and no stage of the pipeline is
  entered. When the call gets past the handling of the arguments (no help, no version,
  no rejected \<open>--\<close> argument) it writes nothing to stdout either and returns normally.
  The missing-data error (message on stderr, exit status 1) is what the same call gives
  when there is no data at all: \<open>data\<close> is \<open>None\<close> and stdin is a terminal.
\<close>

theorem blank_input_is_silent:
  assumes "input_data env data = Some d" and "d = [] \<or> isspace d"
  shows "stderr (main env lib data q st) = [] \<and>
         \<not> error_exit (main env lib data q st) \<and>
         calls (main env lib data q st) = [] \<and>
         (proceeds env q st \<longrightarrow>
            main env lib data q st =
              \<lparr>stdout = [], stderr = [], status = Returned, calls = [],
               opts_after = parsed_opts env q st\<rparr>) \<and>
         (proceeds env q st \<longrightarrow>
            main (env\<lparr>stdin_isatty := True\<rparr>) lib None q st =
              \<lparr>stdout = [], stderr = [missing_data_message], status = Exit 1, calls = [],
               opts_after = parsed_opts env q st\<rparr>)"
proof (cases "proceeds env q st")
  case True
  have blank: "\<not> (d \<noteq> [] \<and> \<not> isspace d)" using assms(2) by blast
  have m: "main env lib data q st =
      \<lparr>stdout = [], stderr = [], status = Returned, calls = [],
       opts_after = parsed_opts env q st\<rparr>"
    using main_proceeds [OF True, of lib data] assms(1) blank by simp
  have p': "proceeds (env\<lparr>stdin_isatty := True\<rparr>) q st"
    using True by (simp add: proceeds_def)
  have n: "main (env\<lparr>stdin_isatty := True\<rparr>) lib None q st =
      \<lparr>stdout = [], stderr = [missing_data_message], status = Exit 1, calls = [],
       opts_after = parsed_opts env q st\<rparr>"
    using main_proceeds [OF p', of lib None]
    by (simp add: input_data_def get_stdin_def print_error_def parsed_opts_def)
  show ?thesis using True n by (simp add: m error_exit_def)
next
  case False
  from main_early_exit [OF False, of lib data] False
  show ?thesis by (simp add: error_exit_def)
qed

theorem blank_input_is_silent_witness:
  "input_data (demo_env [''-c''] [CHR 0x20, CHR 0x0A]) None = Some [CHR 0x20, CHR 0x0A] \<and>
   isspace [CHR 0x20, CHR 0x0A] \<and>
   proceeds (demo_env [''-c''] [CHR 0x20, CHR 0x0A]) ''_'' no_opts \<and>
   main (demo_env [''-c''] [CHR 0x20, CHR 0x0A]) demo_lib None ''_'' no_opts =
     \<lparr>stdout = [], stderr = [], status = Returned, calls = [],
      opts_after = no_opts\<lparr>compact := True\<rparr>\<rparr> \<and>
   main ((demo_env [''-c''] [CHR 0x20, CHR 0x0A])\<lparr>stdin_isatty := True\<rparr>) demo_lib None ''_'' no_opts =
     \<lparr>stdout = [], stderr = [missing_data_message], status = Exit 1, calls = [],
      opts_after = no_opts\<lparr>compact := True\<rparr>\<rparr>"
proof -
  let ?env = "demo_env [''-c''] [CHR 0x20, CHR 0x0A]"
  have i: "input_data ?env None = Some [CHR 0x20, CHR 0x0A]" by code_simp
  have b: "isspace [CHR 0x20, CHR 0x0A]" by code_simp
  have p: "proceeds ?env ''_'' no_opts" by code_simp
  have o: "parsed_opts ?env ''_'' no_opts = no_opts\<lparr>compact := True\<rparr>"
    by (simp add: parsed_opts_def demo_env_def startswith_def set_opts_def no_opts_def)
  from blank_input_is_silent [OF i, of demo_lib "''_''" no_opts] b p
  show ?thesis using i unfolding o by blast
qed



section \<open>The pipeline\<close>







text \<open>
  C6. For every loaded document and every query that yields a response, the value of
  \<open>output\<close> comes from exactly one back-end, chosen by \<open>opts.schema\<close> as it is after
  the query: when it is set, \<open>output\<close> is the schema text of the response (with
  \<open>opts.mono\<close> set first when stdout is no terminal or pygments is missing), otherwise
  it is \<open>create_json(response)\<close>. When the back-end returns, \<open>main\<close> prints \<open>output\<close> as
  it is and returns, except that JSON going to a terminal with pygments, without
  \<open>mono\<close> and \<open>raw\<close>, is printed in its coloured form less the last character.
\<close>

theorem output_from_selected_backend:
  assumes "load_json lib d = Inr doc" and "pyquery lib st doc q = (Inr response, st1)"
  shows "(schema st1 \<and> schema_set_colors lib st1 = None \<longrightarrow>
            fst (format_output env lib st1 response) =
              schema_text lib
                (if \<not> stdout_isatty env \<or> \<not> PYGMENTS_INSTALLED env
                 then st1\<lparr>mono_opt := True\<rparr> else st1) response) \<and>
         (\<not> schema st1 \<longrightarrow>
            format_output env lib st1 response = (create_json lib st1 response, st1)) \<and>
         (format_output env lib st1 response = (Inr output, st2) \<and>
          (schema st1 \<or> mono_opt st1 \<or> raw st1 \<or> \<not> stdout_isatty env \<or> \<not> PYGMENTS_INSTALLED env) \<longrightarrow>
            process env lib d q st =
              \<lparr>stdout = [output], stderr = [], status = Returned,
               calls = [Load, Query, Format, Output], opts_after = st2\<rparr>) \<and>
         (format_output env lib st1 response = (Inr output, st2) \<and>
          \<not> schema st1 \<and> \<not> mono_opt st1 \<and> \<not> raw st1 \<and> stdout_isatty env \<and> PYGMENTS_INSTALLED env \<and>
          highlight lib st1 output = Inr highlighted_json \<longrightarrow>
            process env lib d q st =
              \<lparr>stdout = [butlast highlighted_json], stderr = [], status = Returned,
               calls = [Load, Query, Format, Output], opts_after = st2\<rparr>)"
proof (intro conjI impI)
  assume "schema st1 \<and> schema_set_colors lib st1 = None"
  then show "fst (format_output env lib st1 response) =
      schema_text lib
        (if \<not> stdout_isatty env \<or> \<not> PYGMENTS_INSTALLED env
         then st1\<lparr>mono_opt := True\<rparr> else st1) response"
    by (simp add: format_output_def Let_def)
next
  assume "\<not> schema st1"
  then show "format_output env lib st1 response = (create_json lib st1 response, st1)"
    by (simp add: format_output_def)
next
  assume h: "format_output env lib st1 response = (Inr output, st2) \<and>
    (schema st1 \<or> mono_opt st1 \<or> raw st1 \<or> \<not> stdout_isatty env \<or> \<not> PYGMENTS_INSTALLED env)"
  then have s2: "schema st2 = schema st1" "raw st2 = raw st1" "mono_opt st1 \<longrightarrow> mono_opt st2"
    "\<not> schema st1 \<longrightarrow> st2 = st1"
    by (auto simp: format_output_def Let_def split: if_splits option.splits)
  have "print_output env lib st2 output = Inr output"
    using h s2 by (auto simp: print_output_def)
  with h assms show "process env lib d q st =
      \<lparr>stdout = [output], stderr = [], status = Returned,
       calls = [Load, Query, Format, Output], opts_after = st2\<rparr>"
    by (simp add: process_def)
next
  assume h: "format_output env lib st1 response = (Inr output, st2) \<and>
    \<not> schema st1 \<and> \<not> mono_opt st1 \<and> \<not> raw st1 \<and> stdout_isatty env \<and> PYGMENTS_INSTALLED env \<and>
    highlight lib st1 output = Inr highlighted_json"
  then have "st2 = st1" by (auto simp: format_output_def)
  with h have "print_output env lib st2 output = Inr (butlast highlighted_json)"
    by (simp add: print_output_def)
  with h assms show "process env lib d q st =
      \<lparr>stdout = [butlast highlighted_json], stderr = [], status = Returned,
       calls = [Load, Query, Format, Output], opts_after = st2\<rparr>"
    by (simp add: process_def)
qed

theorem output_from_selected_backend_witness:
  "process (demo_env [] ''true'') demo_lib ''true'' ''_'' (no_opts\<lparr>schema := True\<rparr>) =
     \<lparr>stdout = [''_ = true;''], stderr = [], status = Returned,
      calls = [Load, Query, Format, Output],
      opts_after = no_opts\<lparr>schema := True, mono_opt := True\<rparr>\<rparr> \<and>
   process (demo_env [] ''true'') demo_lib ''true'' ''_'' no_opts =
     \<lparr>stdout = [''true''], stderr = [], status = Returned,
      calls = [Load, Query, Format, Output], opts_after = no_opts\<rparr> \<and>
   process ((demo_env [] ''true'')\<lparr>stdout_isatty := True, PYGMENTS_INSTALLED := True\<rparr>)
       demo_lib ''true'' ''_'' no_opts =
     \<lparr>stdout = [''true''], stderr = [], status = Returned,
      calls = [Load, Query, Format, Output], opts_after = no_opts\<rparr>"
proof -
  let ?env = "demo_env [] ''true''"
  let ?env3 = "?env\<lparr>stdout_isatty := True, PYGMENTS_INSTALLED := True\<rparr>"
  let ?s = "no_opts\<lparr>schema := True\<rparr>"
  let ?sm = "no_opts\<lparr>schema := True, mono_opt := True\<rparr>"
  have l: "load_json demo_lib ''true'' = Inr (VBool True)" by code_simp
  have q1: "pyquery demo_lib ?s (VBool True) ''_'' = (Inr (VBool True), ?s)" by code_simp
  have q2: "pyquery demo_lib no_opts (VBool True) ''_'' = (Inr (VBool True), no_opts)"
    by code_simp
  have f1: "format_output ?env demo_lib ?s (VBool True) = (Inr ''_ = true;'', ?sm)"
    by (simp add: format_output_def demo_defs)
  have c1: "schema ?s" by (simp add: no_opts_def)
  have f2: "format_output ?env demo_lib no_opts (VBool True) = (Inr ''true'', no_opts)"
    by (simp add: format_output_def demo_defs)
  have c2: "\<not> stdout_isatty ?env" by (simp add: demo_env_def)
  have f3: "format_output ?env3 demo_lib no_opts (VBool True) = (Inr ''true'', no_opts)"
    by (simp add: format_output_def demo_defs)
  have c3: "\<not> schema no_opts \<and> \<not> mono_opt no_opts \<and> \<not> raw no_opts \<and> stdout_isatty ?env3 \<and>
      PYGMENTS_INSTALLED ?env3 \<and> highlight demo_lib no_opts ''true'' = Inr (''true'' @ [CHR 0x0A])"
    by (simp add: demo_defs)
  have s1: "process ?env demo_lib ''true'' ''_'' ?s =
     \<lparr>stdout = [''_ = true;''], stderr = [], status = Returned,
      calls = [Load, Query, Format, Output], opts_after = ?sm\<rparr>"
    using output_from_selected_backend [OF l q1, where env = ?env and ?output = "''_ = true;''"
        and ?st2.0 = ?sm] f1 c1
    by blast
  have s2: "process ?env demo_lib ''true'' ''_'' no_opts =
     \<lparr>stdout = [''true''], stderr = [], status = Returned,
      calls = [Load, Query, Format, Output], opts_after = no_opts\<rparr>"
    using output_from_selected_backend [OF l q2, where env = ?env and ?output = "''true''"
        and ?st2.0 = no_opts] f2 c2
    by blast
  have s3: "process ?env3 demo_lib ''true'' ''_'' no_opts =
     \<lparr>stdout = [butlast (''true'' @ [CHR 0x0A])], stderr = [], status = Returned,
      calls = [Load, Query, Format, Output], opts_after = no_opts\<rparr>"
    using output_from_selected_backend [OF l q2, where env = ?env3 and ?output = "''true''"
        and ?st2.0 = no_opts and highlighted_json = "''true'' @ [CHR 0x0A]"] f3 c3
    by blast
  show ?thesis using s1 s2 s3 by simp
qed



section \<open>Loading\<close>


lemma load_lines_succeeds:
  "list_all (\<lambda>(n, l). \<not> isl (json_loads l)) nls \<Longrightarrow>
   \<exists>vs. load_lines json_loads nls = Inr vs \<and> length vs = length nls"
proof (induction nls)
  case Nil
  then show ?case by simp
next
  case (Cons x nls)
  obtain n l where x: "x = (n, l)" by (cases x)
  from Cons.prems x obtain v where v: "json_loads l = Inr v"
    by (cases "json_loads l") simp_all
  from Cons obtain vs where "load_lines json_loads nls = Inr vs \<and> length vs = length nls"
    by auto
  then show ?case using x v by simp
qed


lemma load_json_spec_succeeds:
  assumes "valid_json json_loads t \<or> valid_json_lines json_loads t"
  shows "\<exists>v. load_json_spec json_loads t = Inr v"
proof (cases "json_loads t")
  case (Inr v)
  then show ?thesis by (simp add: load_json_spec_def)
next
  case (Inl off)
  with assms have vl: "valid_json_lines json_loads t" by (simp add: valid_json_def)
  then obtain x xs where c: "numbered_lines t = x # xs"
    by (cases "numbered_lines t") (simp_all add: valid_json_lines_def)
  from vl load_lines_succeeds [of json_loads "numbered_lines t"]
  obtain vs where "load_lines json_loads (numbered_lines t) = Inr vs" 
    by (auto simp: valid_json_lines_def)
  with Inl c show ?thesis
    by (auto simp: load_json_spec_def split: list.split)
qed





section \<open>Options across calls\<close>

text \<open>
  Lines 145-153 assign each option its value on entry or'ed with its flag, so \<open>main\<close>
  never clears an option: what an earlier call in the same process has set stays set.
\<close>

lemma set_opts_absorbs:
  "opts_le st (set_opts no_opts os) \<Longrightarrow> set_opts st os = set_opts no_opts os"
  by (auto simp: opts_le_def set_opts_def no_opts_def)

lemma opts_le_set_opts: "opts_le st (set_opts st os)"
  by (simp add: opts_le_def set_opts_def)

text \<open>
  C1, as the code has it. Options carry over from one call of \<open>main\<close> to the next:
  every option that is set on entry is still set after line 153. A call behaves like
  a call in a fresh process (no option set on entry), with the same output, exit status
  and options on exit, whenever no \<open>--\<close> argument is rejected and every option that
  is set on entry is requested again by the arguments.
\<close>

theorem options_carry_over:
  "opts_le st (parsed_opts env q st) \<and>
   (parse_args (int_max_str_digits env) (argv env) [] Map.empty q \<noteq> Helptext \<and> opts_le st (parsed_opts env q no_opts) \<longrightarrow>
      main env lib data q st = main env lib data q no_opts)"
proof (cases "parse_args (int_max_str_digits env) (argv env) [] Map.empty q")
  case Helptext
  then show ?thesis by (simp add: parsed_opts_def opts_le_def)
next
  case (Parsed os lo q')
  have 1: "opts_le st (parsed_opts env q st)"
    using Parsed by (simp add: parsed_opts_def opts_le_set_opts)
  have 2: "main env lib data q st = main env lib data q no_opts"
    if "opts_le st (parsed_opts env q no_opts)"
  proof -
    from that Parsed have "set_opts st os = set_opts no_opts os"
      by (simp add: parsed_opts_def set_opts_absorbs)
    with Parsed show ?thesis by (simp add: main_def)
  qed
  from 1 2 show ?thesis by blast
qed

theorem options_carry_over_witness:
  "parse_args (int_max_str_digits (demo_env [''-s''] ''true'')) (argv (demo_env [''-s''] ''true'')) [] Map.empty ''_'' \<noteq> Helptext \<and>
   opts_le (no_opts\<lparr>schema := True\<rparr>) (parsed_opts (demo_env [''-s''] ''true'') ''_'' no_opts) \<and>
   main (demo_env [''-s''] ''true'') demo_lib None ''_'' (no_opts\<lparr>schema := True\<rparr>)
     = main (demo_env [''-s''] ''true'') demo_lib None ''_'' no_opts \<and>
   opts_le (no_opts\<lparr>schema := True\<rparr>)
     (parsed_opts (demo_env [] ''true'') ''_'' (no_opts\<lparr>schema := True\<rparr>))"
proof -
  let ?env = "demo_env [''-s''] ''true''"
  have p: "parse_args (int_max_str_digits ?env) (argv ?env) [] Map.empty ''_'' \<noteq> Helptext"
    by (simp add: demo_env_def startswith_def)
  have le: "opts_le (no_opts\<lparr>schema := True\<rparr>) (parsed_opts ?env ''_'' no_opts)"
    by (simp add: opts_le_def parsed_opts_def demo_env_def startswith_def set_opts_def no_opts_def)
  from options_carry_over [of "no_opts\<lparr>schema := True\<rparr>" ?env "''_''" demo_lib None] p le
    options_carry_over [of "no_opts\<lparr>schema := True\<rparr>" "demo_env [] ''true''" "''_''" demo_lib None]
  show ?thesis by blast
qed

text \<open>
  C1 as stated fails. Three calls in one process, on the same piped text \<open>true\<close>:
  without arguments, with \<open>-s\<close>, and without arguments again. The first and the third
  call have identical data and identical arguments, but the third prints the schema text
  and leaves \<open>schema\<close> and \<open>mono\<close> set, because the second call set them.
\<close>

theorem stateless_counterexample:
  "stdout (run (demo_env [] ''true'') demo_lib no_opts) = [''true''] \<and>
   opts_after (run (demo_env [] ''true'') demo_lib no_opts) = no_opts \<and>
   opts_after (run (demo_env [''-s''] ''true'') demo_lib no_opts)
     = no_opts\<lparr>schema := True, mono_opt := True\<rparr> \<and>
   stdout (run (demo_env [] ''true'') demo_lib (no_opts\<lparr>schema := True, mono_opt := True\<rparr>))
     = [''_ = true;''] \<and>
   opts_after (run (demo_env [] ''true'') demo_lib (no_opts\<lparr>schema := True, mono_opt := True\<rparr>))
     = no_opts\<lparr>schema := True, mono_opt := True\<rparr> \<and>
   run (demo_env [] ''true'') demo_lib
       (opts_after (run (demo_env [''-s''] ''true'') demo_lib
          (opts_after (run (demo_env [] ''true'') demo_lib no_opts))))
     \<noteq> run (demo_env [] ''true'') demo_lib no_opts"
proof -
  have a: "run (demo_env [] ''true'') demo_lib no_opts =
      \<lparr>stdout = [''true''], stderr = [], status = Returned,
       calls = [Load, Query, Format, Output], opts_after = no_opts\<rparr>"
    by code_simp
  have b: "opts_after (run (demo_env [''-s''] ''true'') demo_lib no_opts)
     = no_opts\<lparr>schema := True, mono_opt := True\<rparr>"
    by code_simp
  have c: "run (demo_env [] ''true'') demo_lib (no_opts\<lparr>schema := True, mono_opt := True\<rparr>) =
      \<lparr>stdout = [''_ = true;''], stderr = [], status = Returned,
       calls = [Load, Query, Format, Output],
       opts_after = no_opts\<lparr>schema := True, mono_opt := True\<rparr>\<rparr>"
    by code_simp
  show ?thesis by (simp add: a b c)
qed


end
